theory Spec2Isabelle
  imports Main "HOL-Library.Word"
begin

unbundle bit_operations_syntax

section \<open>Data model of the bridge (Bridge.h)\<close>

text \<open>
  A C++ \<open>double\<close> is kept as its IEEE-754 binary64 bit pattern: the bridge copies
  doubles, builds the constants 0.0 and 1.0, converts an \<open>int\<close> to a double and
  prints doubles; it never does arithmetic on them.
  \<open>DWORD\<close> and \<open>int\<close> are 32-bit words, \<open>uint64_t\<close> is a 64-bit word, and
  \<open>HANDLE\<close> is the pointer value, 0 for \<open>nullptr\<close>.
\<close>

type_synonym double = "64 word"
type_synonym DWORD = "32 word"
type_synonym uint64_t = "64 word"
type_synonym HANDLE = nat

record TelemetrySnapshot =
  latitude_deg :: double
  longitude_deg :: double
  altitude_ft_true :: double
  altitude_ft_indicated :: double
  ias_kt :: double
  tas_kt :: double
  ground_velocity_mps :: double
  turbine_n1_pct :: double
  on_ground :: double
  engine_combustion :: double
  transponder_code :: double
  adf_active_freq_khz :: double
  adf_standby_freq_khz :: double
  vertical_speed_fpm :: double
  pitch_deg :: double
  turbine_n1_pct_2 :: double
  gear_handle :: double
  flaps_index :: double
  parking_brake :: double
  autopilot_master :: double

text \<open>
  \<open>TelemetryData\<close> of Bridge.cpp, the tuple a data event carries. Its fields have the
  names of \<open>TelemetrySnapshot\<close> in the source; here they carry the prefix \<open>td_\<close>.
\<close>

record TelemetryData =
  td_latitude_deg :: double
  td_longitude_deg :: double
  td_altitude_ft_true :: double
  td_altitude_ft_indicated :: double
  td_ias_kt :: double
  td_tas_kt :: double
  td_ground_velocity_mps :: double
  td_turbine_n1_pct :: double
  td_on_ground :: double
  td_engine_combustion :: double
  td_transponder_code :: double
  td_adf_active_freq_khz :: double
  td_adf_standby_freq_khz :: double
  td_vertical_speed_fpm :: double
  td_pitch_deg :: double
  td_turbine_n1_pct_2 :: double
  td_gear_handle :: double
  td_flaps_index :: double
  td_parking_brake :: double
  td_autopilot_master :: double

text \<open>The members of \<open>Bridge\<close>, written without their trailing underscore.\<close>

record Bridge =
  simconnect :: HANDLE
  connected :: bool
  snapshot_valid :: bool
  snapshot_ts_ms :: uint64_t
  last_connect_attempt_ms :: uint64_t
  snapshot :: TelemetrySnapshot
  snapshot_json :: string

text \<open>The default member initialisers of Bridge.h.\<close>

definition TelemetrySnapshot_init :: TelemetrySnapshot where
  "TelemetrySnapshot_init =
     \<lparr> latitude_deg = 0, longitude_deg = 0, altitude_ft_true = 0,
       altitude_ft_indicated = 0, ias_kt = 0, tas_kt = 0, ground_velocity_mps = 0,
       turbine_n1_pct = 0, on_ground = 0, engine_combustion = 0, transponder_code = 0,
       adf_active_freq_khz = 0, adf_standby_freq_khz = 0, vertical_speed_fpm = 0,
       pitch_deg = 0, turbine_n1_pct_2 = 0, gear_handle = 0, flaps_index = 0,
       parking_brake = 0, autopilot_master = 0 \<rparr>"

definition Bridge_init :: Bridge where
  "Bridge_init =
     \<lparr> simconnect = 0, connected = False, snapshot_valid = False,
       snapshot_ts_ms = 0, last_connect_attempt_ms = 0,
       snapshot = TelemetrySnapshot_init, snapshot_json = [] \<rparr>"

section \<open>The host interface (SimConnect) as seen from the bridge\<close>

text \<open>
  The identifiers of Bridge.cpp. \<open>SIMCONNECT_OBJECT_ID_USER\<close>, the period and the
  request flag come from SimConnect.h and are kept symbolic.
\<close>

definition kRequestTelemetry :: DWORD where "kRequestTelemetry = 1"
definition kDefTelemetry :: DWORD where "kDefTelemetry = 1"
definition kDefTransponder :: DWORD where "kDefTransponder = 10"
definition kDefAdfActive :: DWORD where "kDefAdfActive = 11"
definition kDefAdfStandby :: DWORD where "kDefAdfStandby = 12"
definition kDefGearHandle :: DWORD where "kDefGearHandle = 13"
definition kDefFlapsIndex :: DWORD where "kDefFlapsIndex = 14"
definition kDefParkingBrake :: DWORD where "kDefParkingBrake = 15"
definition kDefAutopilot :: DWORD where "kDefAutopilot = 16"

datatype object_id = SIMCONNECT_OBJECT_ID_USER
datatype period = SIMCONNECT_PERIOD_SECOND
datatype request_flag = SIMCONNECT_DATA_REQUEST_FLAG_CHANGED

abbreviation kUserObjectId :: object_id where
  "kUserObjectId \<equiv> SIMCONNECT_OBJECT_ID_USER"

text \<open>
  The unit a setter hands to \<open>SimConnect_SetDataOnSimObject\<close>: the object \<open>value\<close>
  points to, with its C++ type; \<open>sizeof\<close> is the \<open>cbUnitSize\<close> argument.
\<close>

datatype unit_data = Data_uint32 "32 word" | Data_double double

fun sizeof :: "unit_data \<Rightarrow> nat" where
  "sizeof (Data_uint32 v) = 4"
| "sizeof (Data_double v) = 8"

text \<open>Every call the bridge makes into the host, in the order it makes them.\<close>

datatype host_call =
    SimConnect_Open string
  | SimConnect_AddToDataDefinition HANDLE DWORD string string
  | SimConnect_RequestDataOnSimObject HANDLE DWORD DWORD object_id period request_flag
  | SimConnect_CallDispatch HANDLE
  | SimConnect_SetDataOnSimObject HANDLE DWORD object_id DWORD DWORD nat unit_data
  | SimConnect_Close HANDLE

text \<open>
  What \<open>SimConnect_CallDispatch\<close> passes to the callback: the \<open>dwID\<close> of the
  received structure and, for a data event, its \<open>dwRequestID\<close> and the memory at
  \<open>dwData\<close> read as a \<open>TelemetryData\<close>.
\<close>

datatype SIMCONNECT_RECV =
    RECV_OPEN
  | RECV_QUIT
  | RECV_SIMOBJECT_DATA DWORD TelemetryData
  | RECV_OTHER DWORD

section \<open>Formatting (the C library as used by BuildSnapshotJson)\<close>

fun digits_of :: "nat \<Rightarrow> string" where
  "digits_of n =
     (if n < 10 then [''0123456789'' ! n]
      else digits_of (n div 10) @ [''0123456789'' ! (n mod 10)])"

declare digits_of.simps [simp del]

definition round_half_even :: "nat \<Rightarrow> nat \<Rightarrow> nat" where
  "round_half_even num den =
     (let q = num div den; r = num mod den
      in if den < 2 * r \<or> (2 * r = den \<and> odd q) then q + 1 else q)"

text \<open>
  The conversion \<open>%.Nf\<close> of \<open>printf\<close> on a binary64 value: sign, the decimal
  digits of the integer part, and for \<open>N > 0\<close> a point and exactly \<open>N\<close> digits,
  the value rounded to nearest, ties to even; infinities and NaNs print as
  \<open>inf\<close> and \<open>nan\<close>. A finite double with biased exponent \<open>ex\<close> and fraction
  \<open>man\<close> is \<open>m * 2 ^ (sh - 1075)\<close> with \<open>m\<close> and \<open>sh\<close> as below.
\<close>

definition printf_f :: "nat \<Rightarrow> double \<Rightarrow> string" where
  "printf_f prec d =
     (let sgn = (if bit d 63 then ''-'' else '''');
          ex = unat (drop_bit 52 d AND 0x7FF);
          man = unat (d AND 0xFFFFFFFFFFFFF)
      in if ex = 2047 then sgn @ (if man = 0 then ''inf'' else ''nan'')
         else
           let m = (if ex = 0 then man else man + 2 ^ 52);
               sh = (if ex = 0 then 1 else ex);
               q = round_half_even (m * 10 ^ prec * 2 ^ (sh - 1075)) (2 ^ (1075 - sh));
               ip = digits_of (q div 10 ^ prec);
               fp = digits_of (q mod 10 ^ prec)
           in sgn @ ip @
              (if prec = 0 then ''''
               else ''.'' @ replicate (prec - length fp) (CHR ''0'') @ fp))"

text \<open>
  \<open>vsprintf\<close> for the one kind of directive the source uses, \<open>%.Nf\<close> with a
  one-digit precision; every other character of the format is copied.
\<close>

definition digit_val :: "char \<Rightarrow> nat" where
  "digit_val c = of_char c - 48"

fun vformat :: "string \<Rightarrow> double list \<Rightarrow> string" where
  "vformat [] args = []"
| "vformat (c # rest) args =
     (if c = CHR ''%'' \<and> take 1 rest = ''.'' \<and> take 1 (drop 2 rest) = ''f'' \<and> args \<noteq> []
      then printf_f (digit_val (rest ! 1)) (hd args) @ vformat (drop 3 rest) (tl args)
      else c # vformat rest args)"

text \<open>
  \<open>snprintf(buffer, n, ...)\<close> stores at most \<open>n - 1\<close> characters and the
  terminating NUL.
\<close>

definition snprintf :: "nat \<Rightarrow> string \<Rightarrow> double list \<Rightarrow> string" where
  "snprintf n fmt args = take (n - 1) (vformat fmt args)"

section \<open>Bridge.cpp\<close>

text \<open>
  The functions take what the environment supplies as arguments: \<open>now\<close> is the value
  \<open>NowMs()\<close> returns where the function calls it, \<open>opened\<close> is the outcome of
  \<open>SimConnect_Open\<close> (\<open>Some h\<close>: success, with the handle stored through the
  out-parameter; \<open>None\<close>: failure, the handle left as it was), \<open>ack\<close> is
  \<open>SUCCEEDED\<close> of a write, and \<open>events\<close> are the messages
  \<open>SimConnect_CallDispatch\<close> hands to the callback, each with the clock value at
  its delivery. They return the new bridge and the host calls made, in order.
\<close>

definition add_definitions :: "HANDLE \<Rightarrow> host_call list" where
  "add_definitions h =
     [ SimConnect_AddToDataDefinition h kDefTelemetry ''PLANE LATITUDE'' ''degrees'',
       SimConnect_AddToDataDefinition h kDefTelemetry ''PLANE LONGITUDE'' ''degrees'',
       SimConnect_AddToDataDefinition h kDefTelemetry ''PLANE ALTITUDE'' ''feet'',
       SimConnect_AddToDataDefinition h kDefTelemetry ''INDICATED ALTITUDE'' ''feet'',
       SimConnect_AddToDataDefinition h kDefTelemetry ''AIRSPEED INDICATED'' ''knots'',
       SimConnect_AddToDataDefinition h kDefTelemetry ''AIRSPEED TRUE'' ''knots'',
       SimConnect_AddToDataDefinition h kDefTelemetry ''GROUND VELOCITY'' ''meters per second'',
       SimConnect_AddToDataDefinition h kDefTelemetry ''TURB ENG N1:1'' ''percent'',
       SimConnect_AddToDataDefinition h kDefTelemetry ''SIM ON GROUND'' ''bool'',
       SimConnect_AddToDataDefinition h kDefTelemetry ''ENG COMBUSTION:1'' ''bool'',
       SimConnect_AddToDataDefinition h kDefTelemetry ''TRANSPONDER CODE:1'' ''bco16'',
       SimConnect_AddToDataDefinition h kDefTelemetry ''ADF ACTIVE FREQUENCY:1'' ''kilohertz'',
       SimConnect_AddToDataDefinition h kDefTelemetry ''ADF STANDBY FREQUENCY:1'' ''kilohertz'',
       SimConnect_AddToDataDefinition h kDefTelemetry ''VERTICAL SPEED'' ''feet per minute'',
       SimConnect_AddToDataDefinition h kDefTelemetry ''PLANE PITCH DEGREES'' ''degrees'',
       SimConnect_AddToDataDefinition h kDefTelemetry ''TURB ENG N1:2'' ''percent'',
       SimConnect_AddToDataDefinition h kDefTelemetry ''GEAR HANDLE POSITION'' ''bool'',
       SimConnect_AddToDataDefinition h kDefTelemetry ''FLAPS HANDLE INDEX'' ''number'',
       SimConnect_AddToDataDefinition h kDefTelemetry ''BRAKE PARKING POSITION'' ''bool'',
       SimConnect_AddToDataDefinition h kDefTelemetry ''AUTOPILOT MASTER'' ''bool'',
       SimConnect_AddToDataDefinition h kDefTransponder ''TRANSPONDER CODE:1'' ''bco16'',
       SimConnect_AddToDataDefinition h kDefAdfActive ''ADF ACTIVE FREQUENCY:1'' ''kilohertz'',
       SimConnect_AddToDataDefinition h kDefAdfStandby ''ADF STANDBY FREQUENCY:1'' ''kilohertz'',
       SimConnect_AddToDataDefinition h kDefGearHandle ''GEAR HANDLE POSITION'' ''bool'',
       SimConnect_AddToDataDefinition h kDefFlapsIndex ''FLAPS HANDLE INDEX'' ''number'',
       SimConnect_AddToDataDefinition h kDefParkingBrake ''BRAKE PARKING POSITION'' ''bool'',
       SimConnect_AddToDataDefinition h kDefAutopilot ''AUTOPILOT MASTER'' ''bool'' ]"

definition RequestTelemetry :: "Bridge \<Rightarrow> host_call list" where
  "RequestTelemetry b =
     [SimConnect_RequestDataOnSimObject (simconnect b) kRequestTelemetry kDefTelemetry
        kUserObjectId SIMCONNECT_PERIOD_SECOND SIMCONNECT_DATA_REQUEST_FLAG_CHANGED]"

definition EnsureConnected ::
  "uint64_t \<Rightarrow> HANDLE option \<Rightarrow> Bridge \<Rightarrow> bool \<times> Bridge \<times> host_call list" where
  "EnsureConnected now opened b =
     (if connected b then (True, b, [])
      else if now - last_connect_attempt_ms b < 2000 then (False, b, [])
      else
        let b1 = b\<lparr>last_connect_attempt_ms := now\<rparr>
        in case opened of
             Some h \<Rightarrow>
               let b2 = b1\<lparr>simconnect := h, connected := True\<rparr>
               in (True, b2,
                   SimConnect_Open ''OpenSquawkBridge'' # add_definitions (simconnect b2)
                     @ RequestTelemetry b2)
           | None \<Rightarrow> (False, b1, [SimConnect_Open ''OpenSquawkBridge'']))"

definition Close :: "Bridge \<Rightarrow> Bridge \<times> host_call list" where
  "Close b =
     (b\<lparr>simconnect := 0, connected := False, snapshot_valid := False\<rparr>,
      if simconnect b \<noteq> 0 then [SimConnect_Close (simconnect b)] else [])"

definition IsConnected :: "Bridge \<Rightarrow> bool" where
  "IsConnected b = connected b"

definition HasSnapshot :: "Bridge \<Rightarrow> bool" where
  "HasSnapshot b = snapshot_valid b"

definition SnapshotAgeMs :: "uint64_t \<Rightarrow> Bridge \<Rightarrow> uint64_t" where
  "SnapshotAgeMs now b =
     (if \<not> snapshot_valid b then 0
      else if snapshot_ts_ms b \<le> now then now - snapshot_ts_ms b else 0)"

definition GetSnapshotJson :: "Bridge \<Rightarrow> string \<times> Bridge" where
  "GetSnapshotJson b =
     (if \<not> snapshot_valid b
      then (let b1 = b\<lparr>snapshot_json := ''{}''\<rparr> in (snapshot_json b1, b1))
      else (snapshot_json b, b))"

subsection \<open>BuildSnapshotJson\<close>

definition kSnapshotFormat :: string where
  \<open>kSnapshotFormat =
     ''{"latitude":%.8f,"longitude":%.8f,"altitude_ft_true":%.2f,"altitude_ft_indicated":%.2f,''
     @ ''"ias_kt":%.2f,"tas_kt":%.2f,"ground_velocity_mps":%.3f,"turbine_n1_pct":%.2f,''
     @ ''"on_ground":%.0f,"engine_combustion":%.0f,"transponder_code":%.0f,''
     @ ''"adf_active_freq_khz":%.3f,"adf_standby_freq_khz":%.3f,"vertical_speed_fpm":%.1f,''
     @ ''"pitch_deg":%.2f,"turbine_n1_pct_2":%.2f,"gear_handle":%.0f,"flaps_index":%.0f,''
     @ ''"parking_brake":%.0f,"autopilot_master":%.0f}''\<close>

definition snapshot_args :: "TelemetrySnapshot \<Rightarrow> double list" where
  "snapshot_args s =
     [ latitude_deg s, longitude_deg s, altitude_ft_true s, altitude_ft_indicated s,
       ias_kt s, tas_kt s, ground_velocity_mps s, turbine_n1_pct s, on_ground s,
       engine_combustion s, transponder_code s, adf_active_freq_khz s,
       adf_standby_freq_khz s, vertical_speed_fpm s, pitch_deg s, turbine_n1_pct_2 s,
       gear_handle s, flaps_index s, parking_brake s, autopilot_master s ]"

definition BuildSnapshotJson :: "Bridge \<Rightarrow> Bridge" where
  "BuildSnapshotJson b =
     b\<lparr>snapshot_json := snprintf 1024 kSnapshotFormat (snapshot_args (snapshot b))\<rparr>"

subsection \<open>The setters\<close>

text \<open>
  \<open>static_cast<double>(index)\<close> for a 32-bit \<open>int\<close>: every such value is a double,
  so the conversion is exact. For \<open>a = |index| > 0\<close> with leading bit at position
  \<open>e\<close>, the biased exponent is \<open>1023 + e\<close> and the fraction is \<open>a\<close> without its
  leading bit, shifted to 52 bits.
\<close>

fun bit_length :: "nat \<Rightarrow> nat" where
  "bit_length n = (if n = 0 then 0 else Suc (bit_length (n div 2)))"

declare bit_length.simps [simp del]

definition double_of_int :: "32 word \<Rightarrow> double" where
  "double_of_int w =
     (let i = sint w; a = nat \<bar>i\<bar>
      in if a = 0 then 0
         else
           let e = bit_length a - 1
           in (if i < 0 then push_bit 63 1 else 0)
              OR push_bit 52 (word_of_nat (1023 + e))
              OR word_of_nat ((a - 2 ^ e) * 2 ^ (52 - e)))"

definition double_of_bool :: "bool \<Rightarrow> double" where
  "double_of_bool on = (if on then 0x3FF0000000000000 else 0)"

definition SetData :: "Bridge \<Rightarrow> DWORD \<Rightarrow> unit_data \<Rightarrow> host_call" where
  "SetData b def v =
     SimConnect_SetDataOnSimObject (simconnect b) def kUserObjectId 0 0 (sizeof v) v"

definition SetTransponderCode ::
  "bool \<Rightarrow> 32 word \<Rightarrow> Bridge \<Rightarrow> bool \<times> Bridge \<times> host_call list" where
  "SetTransponderCode ack code b =
     (if \<not> connected b then (False, b, [])
      else let v = Data_uint32 code in (ack, b, [SetData b kDefTransponder v]))"

definition SetAdfActiveKHz ::
  "bool \<Rightarrow> double \<Rightarrow> Bridge \<Rightarrow> bool \<times> Bridge \<times> host_call list" where
  "SetAdfActiveKHz ack value_khz b =
     (if \<not> connected b then (False, b, [])
      else let v = Data_double value_khz in (ack, b, [SetData b kDefAdfActive v]))"

definition SetAdfStandbyKHz ::
  "bool \<Rightarrow> double \<Rightarrow> Bridge \<Rightarrow> bool \<times> Bridge \<times> host_call list" where
  "SetAdfStandbyKHz ack value_khz b =
     (if \<not> connected b then (False, b, [])
      else let v = Data_double value_khz in (ack, b, [SetData b kDefAdfStandby v]))"

definition SetGearHandle ::
  "bool \<Rightarrow> bool \<Rightarrow> Bridge \<Rightarrow> bool \<times> Bridge \<times> host_call list" where
  "SetGearHandle ack on b =
     (if \<not> connected b then (False, b, [])
      else let v = Data_double (double_of_bool on) in (ack, b, [SetData b kDefGearHandle v]))"

definition SetFlapsIndex ::
  "bool \<Rightarrow> 32 word \<Rightarrow> Bridge \<Rightarrow> bool \<times> Bridge \<times> host_call list" where
  "SetFlapsIndex ack index b =
     (if \<not> connected b then (False, b, [])
      else let v = Data_double (double_of_int index) in (ack, b, [SetData b kDefFlapsIndex v]))"

definition SetParkingBrake ::
  "bool \<Rightarrow> bool \<Rightarrow> Bridge \<Rightarrow> bool \<times> Bridge \<times> host_call list" where
  "SetParkingBrake ack on b =
     (if \<not> connected b then (False, b, [])
      else let v = Data_double (double_of_bool on) in (ack, b, [SetData b kDefParkingBrake v]))"

definition SetAutopilotMaster ::
  "bool \<Rightarrow> bool \<Rightarrow> Bridge \<Rightarrow> bool \<times> Bridge \<times> host_call list" where
  "SetAutopilotMaster ack on b =
     (if \<not> connected b then (False, b, [])
      else let v = Data_double (double_of_bool on) in (ack, b, [SetData b kDefAutopilot v]))"

subsection \<open>Dispatch and Tick\<close>

definition copy_telemetry :: "TelemetryData \<Rightarrow> TelemetrySnapshot \<Rightarrow> TelemetrySnapshot" where
  "copy_telemetry telemetry s =
     s\<lparr> latitude_deg := td_latitude_deg telemetry,
        longitude_deg := td_longitude_deg telemetry,
        altitude_ft_true := td_altitude_ft_true telemetry,
        altitude_ft_indicated := td_altitude_ft_indicated telemetry,
        ias_kt := td_ias_kt telemetry,
        tas_kt := td_tas_kt telemetry,
        ground_velocity_mps := td_ground_velocity_mps telemetry,
        turbine_n1_pct := td_turbine_n1_pct telemetry,
        on_ground := td_on_ground telemetry,
        engine_combustion := td_engine_combustion telemetry,
        transponder_code := td_transponder_code telemetry,
        adf_active_freq_khz := td_adf_active_freq_khz telemetry,
        adf_standby_freq_khz := td_adf_standby_freq_khz telemetry,
        vertical_speed_fpm := td_vertical_speed_fpm telemetry,
        pitch_deg := td_pitch_deg telemetry,
        turbine_n1_pct_2 := td_turbine_n1_pct_2 telemetry,
        gear_handle := td_gear_handle telemetry,
        flaps_index := td_flaps_index telemetry,
        parking_brake := td_parking_brake telemetry,
        autopilot_master := td_autopilot_master telemetry \<rparr>"

fun HandleDispatch :: "uint64_t \<Rightarrow> SIMCONNECT_RECV \<Rightarrow> Bridge \<Rightarrow> Bridge \<times> host_call list" where
  "HandleDispatch now RECV_OPEN b = (b, [])"
| "HandleDispatch now RECV_QUIT b = Close b"
| "HandleDispatch now (RECV_SIMOBJECT_DATA dwRequestID telemetry) b =
     (if dwRequestID \<noteq> kRequestTelemetry then (b, [])
      else
        let b1 = b\<lparr>snapshot := copy_telemetry telemetry (snapshot b)\<rparr>;
            b2 = b1\<lparr>snapshot_valid := True\<rparr>;
            b3 = b2\<lparr>snapshot_ts_ms := now\<rparr>
        in (BuildSnapshotJson b3, []))"
| "HandleDispatch now (RECV_OTHER dwID) b = (b, [])"

fun CallDispatch :: "(uint64_t \<times> SIMCONNECT_RECV) list \<Rightarrow> Bridge \<Rightarrow> Bridge \<times> host_call list" where
  "CallDispatch [] b = (b, [])"
| "CallDispatch ((now, data) # events) b =
     (let (b1, c1) = HandleDispatch now data b;
          (b2, c2) = CallDispatch events b1
      in (b2, c1 @ c2))"

definition Tick ::
  "uint64_t \<Rightarrow> HANDLE option \<Rightarrow> (uint64_t \<times> SIMCONNECT_RECV) list \<Rightarrow> Bridge
     \<Rightarrow> Bridge \<times> host_call list" where
  "Tick now opened events b =
     (let (r, b1, c1) = EnsureConnected now opened b
      in if connected b1
         then let (b2, c2) = CallDispatch events b1
              in (b2, c1 @ SimConnect_CallDispatch (simconnect b1) # c2)
         else (b1, c1))"

subsection \<open>exports.cpp\<close>

definition osb_get_snapshot_json :: "Bridge \<Rightarrow> string \<times> Bridge" where
  "osb_get_snapshot_json b = GetSnapshotJson b"

definition module_deinit :: "Bridge \<Rightarrow> Bridge \<times> host_call list" where
  "module_deinit b = Close b"

section \<open>The states the bridge can be in\<close>

text \<open>
  The singleton starts as \<open>Bridge_init\<close> and changes only through its public member
  functions, which is all exports.cpp calls, with whatever the clock and the host supply.
\<close>

inductive reachable :: "Bridge \<Rightarrow> bool" where
  reach_init: "reachable Bridge_init"
| reach_EnsureConnected:
    "reachable b \<Longrightarrow> reachable (fst (snd (EnsureConnected now opened b)))"
| reach_Tick: "reachable b \<Longrightarrow> reachable (fst (Tick now opened events b))"
| reach_Close: "reachable b \<Longrightarrow> reachable (fst (Close b))"
| reach_GetSnapshotJson: "reachable b \<Longrightarrow> reachable (snd (GetSnapshotJson b))"
| reach_SetTransponderCode:
    "reachable b \<Longrightarrow> reachable (fst (snd (SetTransponderCode ack code b)))"
| reach_SetAdfActiveKHz:
    "reachable b \<Longrightarrow> reachable (fst (snd (SetAdfActiveKHz ack khz b)))"
| reach_SetAdfStandbyKHz:
    "reachable b \<Longrightarrow> reachable (fst (snd (SetAdfStandbyKHz ack khz b)))"
| reach_SetGearHandle:
    "reachable b \<Longrightarrow> reachable (fst (snd (SetGearHandle ack on b)))"
| reach_SetFlapsIndex:
    "reachable b \<Longrightarrow> reachable (fst (snd (SetFlapsIndex ack index b)))"
| reach_SetParkingBrake:
    "reachable b \<Longrightarrow> reachable (fst (snd (SetParkingBrake ack on b)))"
| reach_SetAutopilotMaster:
    "reachable b \<Longrightarrow> reachable (fst (snd (SetAutopilotMaster ack on b)))"

section \<open>The serialized snapshot as the specification describes it\<close>

text \<open>
  Section 6 of the specification: the keys in their order, each with the precision of
  its \<open>%.Nf\<close>, and the member of the cached snapshot it renders.
\<close>

definition spec_keys :: "(string \<times> nat \<times> (TelemetrySnapshot \<Rightarrow> double)) list" where
  "spec_keys =
     [ (''latitude'', 8, latitude_deg),
       (''longitude'', 8, longitude_deg),
       (''altitude_ft_true'', 2, altitude_ft_true),
       (''altitude_ft_indicated'', 2, altitude_ft_indicated),
       (''ias_kt'', 2, ias_kt),
       (''tas_kt'', 2, tas_kt),
       (''ground_velocity_mps'', 3, ground_velocity_mps),
       (''turbine_n1_pct'', 2, turbine_n1_pct),
       (''on_ground'', 0, on_ground),
       (''engine_combustion'', 0, engine_combustion),
       (''transponder_code'', 0, transponder_code),
       (''adf_active_freq_khz'', 3, adf_active_freq_khz),
       (''adf_standby_freq_khz'', 3, adf_standby_freq_khz),
       (''vertical_speed_fpm'', 1, vertical_speed_fpm),
       (''pitch_deg'', 2, pitch_deg),
       (''turbine_n1_pct_2'', 2, turbine_n1_pct_2),
       (''gear_handle'', 0, gear_handle),
       (''flaps_index'', 0, flaps_index),
       (''parking_brake'', 0, parking_brake),
       (''autopilot_master'', 0, autopilot_master) ]"

fun spec_member :: "TelemetrySnapshot \<Rightarrow> string \<times> nat \<times> (TelemetrySnapshot \<Rightarrow> double) \<Rightarrow> string" where
  "spec_member s (key, prec, field) =
     [CHR 0x22] @ key @ [CHR 0x22] @ '':'' @ printf_f prec (field s)"

fun join_comma :: "string list \<Rightarrow> string" where
  "join_comma [] = []"
| "join_comma [x] = x"
| "join_comma (x # y # ys) = x @ '','' @ join_comma (y # ys)"

definition spec_json :: "TelemetrySnapshot \<Rightarrow> string" where
  "spec_json s = ''{'' @ join_comma (map (spec_member s) spec_keys) @ ''}''"

text \<open>
  Section 4.5: the tuple of a data event overwrites the payload field by field, in the
  order of the read declarations.
\<close>

definition spec_decode :: "TelemetryData \<Rightarrow> TelemetrySnapshot" where
  "spec_decode t =
     \<lparr> latitude_deg = td_latitude_deg t, longitude_deg = td_longitude_deg t,
       altitude_ft_true = td_altitude_ft_true t,
       altitude_ft_indicated = td_altitude_ft_indicated t,
       ias_kt = td_ias_kt t, tas_kt = td_tas_kt t,
       ground_velocity_mps = td_ground_velocity_mps t,
       turbine_n1_pct = td_turbine_n1_pct t, on_ground = td_on_ground t,
       engine_combustion = td_engine_combustion t,
       transponder_code = td_transponder_code t,
       adf_active_freq_khz = td_adf_active_freq_khz t,
       adf_standby_freq_khz = td_adf_standby_freq_khz t,
       vertical_speed_fpm = td_vertical_speed_fpm t, pitch_deg = td_pitch_deg t,
       turbine_n1_pct_2 = td_turbine_n1_pct_2 t, gear_handle = td_gear_handle t,
       flaps_index = td_flaps_index t, parking_brake = td_parking_brake t,
       autopilot_master = td_autopilot_master t \<rparr>"

text \<open>
  Sections 3 and 4.2: one bulk definition of the 20 read fields and one definition for
  each of the seven writable fields, registered in this order.
\<close>

definition spec_definitions :: "DWORD list" where
  "spec_definitions =
     replicate 20 kDefTelemetry
     @ [kDefTransponder, kDefAdfActive, kDefAdfStandby, kDefGearHandle, kDefFlapsIndex,
        kDefParkingBrake, kDefAutopilot]"

text \<open>
  The field descriptors of sections 3 and 4.2, each with the definition it belongs to,
  its name in the host's namespace and its unit: the 20 read fields of the bulk
  definition in their order, then the seven writable fields, one definition each, under
  the name and unit the same field has in the bulk definition.
\<close>

definition field_registry :: "(DWORD \<times> string \<times> string) list" where
  "field_registry =
     [
       (kDefTelemetry, ''PLANE LATITUDE'', ''degrees''),
       (kDefTelemetry, ''PLANE LONGITUDE'', ''degrees''),
       (kDefTelemetry, ''PLANE ALTITUDE'', ''feet''),
       (kDefTelemetry, ''INDICATED ALTITUDE'', ''feet''),
       (kDefTelemetry, ''AIRSPEED INDICATED'', ''knots''),
       (kDefTelemetry, ''AIRSPEED TRUE'', ''knots''),
       (kDefTelemetry, ''GROUND VELOCITY'', ''meters per second''),
       (kDefTelemetry, ''TURB ENG N1:1'', ''percent''),
       (kDefTelemetry, ''SIM ON GROUND'', ''bool''),
       (kDefTelemetry, ''ENG COMBUSTION:1'', ''bool''),
       (kDefTelemetry, ''TRANSPONDER CODE:1'', ''bco16''),
       (kDefTelemetry, ''ADF ACTIVE FREQUENCY:1'', ''kilohertz''),
       (kDefTelemetry, ''ADF STANDBY FREQUENCY:1'', ''kilohertz''),
       (kDefTelemetry, ''VERTICAL SPEED'', ''feet per minute''),
       (kDefTelemetry, ''PLANE PITCH DEGREES'', ''degrees''),
       (kDefTelemetry, ''TURB ENG N1:2'', ''percent''),
       (kDefTelemetry, ''GEAR HANDLE POSITION'', ''bool''),
       (kDefTelemetry, ''FLAPS HANDLE INDEX'', ''number''),
       (kDefTelemetry, ''BRAKE PARKING POSITION'', ''bool''),
       (kDefTelemetry, ''AUTOPILOT MASTER'', ''bool''),
       (kDefTransponder, ''TRANSPONDER CODE:1'', ''bco16''),
       (kDefAdfActive, ''ADF ACTIVE FREQUENCY:1'', ''kilohertz''),
       (kDefAdfStandby, ''ADF STANDBY FREQUENCY:1'', ''kilohertz''),
       (kDefGearHandle, ''GEAR HANDLE POSITION'', ''bool''),
       (kDefFlapsIndex, ''FLAPS HANDLE INDEX'', ''number''),
       (kDefParkingBrake, ''BRAKE PARKING POSITION'', ''bool''),
       (kDefAutopilot, ''AUTOPILOT MASTER'', ''bool'') ]"

section \<open>Reading the host calls of a trace\<close>

fun registrations :: "host_call list \<Rightarrow> (HANDLE \<times> DWORD \<times> string \<times> string) list" where
  "registrations [] = []"
| "registrations (SimConnect_AddToDataDefinition h d name unit # cs) =
     (h, d, name, unit) # registrations cs"
| "registrations (c # cs) = registrations cs"


fun opens :: "host_call list \<Rightarrow> nat" where
  "opens [] = 0"
| "opens (SimConnect_Open name # cs) = Suc (opens cs)"
| "opens (c # cs) = opens cs"

fun dispatch_calls :: "host_call list \<Rightarrow> nat" where
  "dispatch_calls [] = 0"
| "dispatch_calls (SimConnect_CallDispatch h # cs) = Suc (dispatch_calls cs)"
| "dispatch_calls (c # cs) = dispatch_calls cs"

fun definition_ids :: "host_call list \<Rightarrow> DWORD list" where
  "definition_ids [] = []"
| "definition_ids (SimConnect_AddToDataDefinition h d name unit # cs) = d # definition_ids cs"
| "definition_ids (c # cs) = definition_ids cs"

fun subscriptions :: "host_call list \<Rightarrow> (DWORD \<times> DWORD) list" where
  "subscriptions [] = []"
| "subscriptions (SimConnect_RequestDataOnSimObject h r d obj per flag # cs) =
     (r, d) # subscriptions cs"
| "subscriptions (c # cs) = subscriptions cs"

section \<open>Concrete states and events\<close>

definition sample_telemetry :: TelemetryData where
  "sample_telemetry =
     \<lparr> td_latitude_deg = 0x3FF8000000000000, td_longitude_deg = 0xC000000000000000,
       td_altitude_ft_true = 0x408F400000000000, td_altitude_ft_indicated = 0x408F400000000000,
       td_ias_kt = 0, td_tas_kt = 0, td_ground_velocity_mps = 0, td_turbine_n1_pct = 0,
       td_on_ground = 0x3FF0000000000000, td_engine_combustion = 0,
       td_transponder_code = 0x40B2000000000000, td_adf_active_freq_khz = 0,
       td_adf_standby_freq_khz = 0, td_vertical_speed_fpm = 0, td_pitch_deg = 0,
       td_turbine_n1_pct_2 = 0, td_gear_handle = 0x3FF0000000000000, td_flaps_index = 0,
       td_parking_brake = 0x3FF0000000000000, td_autopilot_master = 0 \<rparr>"

text \<open>The double \<open>2 ^ 1023\<close> has 308 decimal digits before the point.\<close>

definition huge_telemetry :: TelemetryData where
  "huge_telemetry =
     sample_telemetry
       \<lparr> td_latitude_deg := 0x7FE0000000000000, td_longitude_deg := 0x7FE0000000000000,
         td_altitude_ft_true := 0x7FE0000000000000,
         td_altitude_ft_indicated := 0x7FE0000000000000 \<rparr>"

definition connected_bridge :: Bridge where
  "connected_bridge = fst (snd (EnsureConnected 5000 (Some 1) Bridge_init))"

definition sample_bridge :: Bridge where
  "sample_bridge =
     fst (Tick 5000 (Some 1) [(5001, RECV_SIMOBJECT_DATA 1 sample_telemetry)] Bridge_init)"

definition huge_bridge :: Bridge where
  "huge_bridge =
     fst (Tick 5000 (Some 1) [(5001, RECV_SIMOBJECT_DATA 1 huge_telemetry)] Bridge_init)"

section \<open>The invariant of the cached string\<close>

definition json_inv :: "Bridge \<Rightarrow> bool" where
  "json_inv b \<longleftrightarrow>
     (snapshot_valid b \<longrightarrow> snapshot_json b = take 1023 (spec_json (snapshot b)))"

section \<open>Auxiliary facts\<close>

lemma word_sub_elapsed:
  fixes now last :: "64 word"
  assumes "last \<le> now"
  shows "uint (now - last) = uint now - uint last"
  using assms by (simp add: uint_minus_simple_alt)

lemma CallDispatch_Cons:
  "CallDispatch ((now, ev) # es) b =
     (fst (CallDispatch es (fst (HandleDispatch now ev b))),
      snd (HandleDispatch now ev b) @ snd (CallDispatch es (fst (HandleDispatch now ev b))))"
  by (simp add: case_prod_beta)

declare CallDispatch.simps(2) [simp del]
declare CallDispatch_Cons [simp]

lemma Tick_unfold:
  "Tick now opened events b =
     (if connected (fst (snd (EnsureConnected now opened b)))
      then (fst (CallDispatch events (fst (snd (EnsureConnected now opened b)))),
            snd (snd (EnsureConnected now opened b))
              @ SimConnect_CallDispatch (simconnect (fst (snd (EnsureConnected now opened b))))
              # snd (CallDispatch events (fst (snd (EnsureConnected now opened b)))))
      else snd (EnsureConnected now opened b))"
  by (simp add: Tick_def case_prod_beta)

section \<open>The age of the snapshot\<close>

text \<open>
  Claim C8. \<open>SnapshotAgeMs\<close> is 0 when no snapshot is valid; otherwise it is the
  current time minus the timestamp of the snapshot, and 0 when the timestamp lies
  after the current time. Read as integers, the result is never negative and never a
  wrapped-around difference.
\<close>

theorem SnapshotAgeMs_clamped:
  "uint (SnapshotAgeMs now b) =
     (if snapshot_valid b then max 0 (uint now - uint (snapshot_ts_ms b)) else 0)"
proof (cases "snapshot_valid b")
  case False
  then show ?thesis by (simp add: SnapshotAgeMs_def)
next
  case True
  show ?thesis
  proof (cases "snapshot_ts_ms b \<le> now")
    case le: True
    then have "uint (snapshot_ts_ms b) \<le> uint now" by (simp add: word_le_def)
    with True le show ?thesis by (simp add: SnapshotAgeMs_def word_sub_elapsed)
  next
    case gt: False
    then have "uint now < uint (snapshot_ts_ms b)" by (simp add: word_le_def)
    with True gt show ?thesis by (simp add: SnapshotAgeMs_def)
  qed
qed

theorem SnapshotAgeMs_clamped_witness:
  "uint (SnapshotAgeMs 5000 (Bridge_init\<lparr>snapshot_valid := True, snapshot_ts_ms := 7000\<rparr>)) = 0
   \<and> uint (SnapshotAgeMs 7500 (Bridge_init\<lparr>snapshot_valid := True, snapshot_ts_ms := 7000\<rparr>)) = 500
   \<and> uint (SnapshotAgeMs 7500 Bridge_init) = 0"
  using SnapshotAgeMs_clamped [of 5000 "Bridge_init\<lparr>snapshot_valid := True, snapshot_ts_ms := 7000\<rparr>"]
        SnapshotAgeMs_clamped [of 7500 "Bridge_init\<lparr>snapshot_valid := True, snapshot_ts_ms := 7000\<rparr>"]
        SnapshotAgeMs_clamped [of 7500 Bridge_init]
  by (simp add: Bridge_init_def)

section \<open>Close\<close>

text \<open>
  Claim C7. In every state \<open>Close\<close> leaves the bridge disconnected with the snapshot
  invalid; the 20 fields of the payload, and every other member but the handle, stay
  as they were. \<open>Close\<close> is idempotent: on the state a \<open>Close\<close> leaves behind, a
  second \<open>Close\<close> changes nothing and makes no host call.
\<close>

theorem Close_frame_idempotent:
  "connected (fst (Close b)) = False
   \<and> snapshot_valid (fst (Close b)) = False
   \<and> simconnect (fst (Close b)) = 0
   \<and> snapshot (fst (Close b)) = snapshot b
   \<and> snapshot_ts_ms (fst (Close b)) = snapshot_ts_ms b
   \<and> last_connect_attempt_ms (fst (Close b)) = last_connect_attempt_ms b
   \<and> snapshot_json (fst (Close b)) = snapshot_json b
   \<and> Close (fst (Close b)) = (fst (Close b), [])"
  by (simp add: Close_def)

section \<open>The setters while disconnected\<close>

text \<open>
  Claim C4. While the bridge is disconnected, each of the seven setters returns false
  for every argument, makes no call into the host and returns the bridge unchanged.
\<close>

theorem setters_disconnected:
  assumes "\<not> connected b"
  shows "SetTransponderCode ack code b = (False, b, [])
       \<and> SetAdfActiveKHz ack khz b = (False, b, [])
       \<and> SetAdfStandbyKHz ack khz b = (False, b, [])
       \<and> SetGearHandle ack on b = (False, b, [])
       \<and> SetFlapsIndex ack index b = (False, b, [])
       \<and> SetParkingBrake ack on b = (False, b, [])
       \<and> SetAutopilotMaster ack on b = (False, b, [])"
  using assms
  by (simp add: SetTransponderCode_def SetAdfActiveKHz_def SetAdfStandbyKHz_def
      SetGearHandle_def SetFlapsIndex_def SetParkingBrake_def SetAutopilotMaster_def)

theorem setters_disconnected_witness:
  "\<not> connected Bridge_init
   \<and> SetTransponderCode True 0x1200 Bridge_init = (False, Bridge_init, [])
   \<and> SetAdfActiveKHz True 0x4075E00000000000 Bridge_init = (False, Bridge_init, [])
   \<and> SetAdfStandbyKHz True 0x4075E00000000000 Bridge_init = (False, Bridge_init, [])
   \<and> SetGearHandle True True Bridge_init = (False, Bridge_init, [])
   \<and> SetFlapsIndex True 2 Bridge_init = (False, Bridge_init, [])
   \<and> SetParkingBrake True True Bridge_init = (False, Bridge_init, [])
   \<and> SetAutopilotMaster True True Bridge_init = (False, Bridge_init, [])"
proof -
  have d: "\<not> connected Bridge_init" by (simp add: Bridge_init_def)
  from setters_disconnected [OF d, of True "0x1200" "0x4075E00000000000" True 2] d
  show ?thesis by simp
qed

section \<open>The cooldown of EnsureConnected\<close>

text \<open>
  Claim C2. While the bridge is disconnected, a call of \<open>EnsureConnected\<close> at a clock
  value less than 2000 ms after the recorded last connection attempt returns false,
  makes no call into the host (so no open handshake) and leaves the bridge as it was,
  whatever the host would have answered. The clock is monotonic, so the recorded
  attempt is not later than \<open>now\<close>.
\<close>

theorem EnsureConnected_cooldown:
  assumes "\<not> connected b"
    and "last_connect_attempt_ms b \<le> now"
    and "uint now - uint (last_connect_attempt_ms b) < 2000"
  shows "EnsureConnected now opened b = (False, b, [])"
proof -
  have "uint (now - last_connect_attempt_ms b) < 2000"
    using assms(2,3) by (simp add: word_sub_elapsed)
  then have "now - last_connect_attempt_ms b < 2000"
    by (simp add: word_less_def)
  with assms(1) show ?thesis by (simp add: EnsureConnected_def)
qed

theorem EnsureConnected_cooldown_witness:
  "\<not> connected (Bridge_init\<lparr>last_connect_attempt_ms := 10000\<rparr>)
   \<and> last_connect_attempt_ms (Bridge_init\<lparr>last_connect_attempt_ms := 10000\<rparr>) \<le> 11999
   \<and> uint (11999 :: 64 word)
        - uint (last_connect_attempt_ms (Bridge_init\<lparr>last_connect_attempt_ms := 10000\<rparr>)) < 2000
   \<and> EnsureConnected 11999 (Some 7) (Bridge_init\<lparr>last_connect_attempt_ms := 10000\<rparr>)
       = (False, Bridge_init\<lparr>last_connect_attempt_ms := 10000\<rparr>, [])"
  using EnsureConnected_cooldown [of "Bridge_init\<lparr>last_connect_attempt_ms := 10000\<rparr>" 11999 "Some 7"]
  by (simp add: Bridge_init_def)

section \<open>The serialized snapshot\<close>

text \<open>
  The format string of \<open>BuildSnapshotJson\<close> with its 20 arguments produces the object
  of section 6, key by key; the buffer of 1024 characters keeps its first 1023.
\<close>

lemma vformat_spec: "vformat kSnapshotFormat (snapshot_args s) = spec_json s"
  by (simp add: kSnapshotFormat_def snapshot_args_def spec_json_def spec_keys_def digit_val_def)

lemma BuildSnapshotJson_spec:
  "BuildSnapshotJson b = b\<lparr>snapshot_json := take 1023 (spec_json (snapshot b))\<rparr>"
  by (simp add: BuildSnapshotJson_def snprintf_def vformat_spec)

lemma copy_telemetry_decode: "copy_telemetry t s = spec_decode t"
  by (simp add: copy_telemetry_def spec_decode_def)

lemma json_inv_HandleDispatch: "json_inv b \<Longrightarrow> json_inv (fst (HandleDispatch now ev b))"
  by (cases ev) (simp_all add: json_inv_def Close_def BuildSnapshotJson_spec)

lemma json_inv_CallDispatch: "json_inv b \<Longrightarrow> json_inv (fst (CallDispatch events b))"
proof (induction events arbitrary: b)
  case Nil
  then show ?case by simp
next
  case (Cons e es)
  obtain now ev where e: "e = (now, ev)" by (cases e)
  from Cons.prems have "json_inv (fst (HandleDispatch now ev b))"
    by (rule json_inv_HandleDispatch)
  then have "json_inv (fst (CallDispatch es (fst (HandleDispatch now ev b))))"
    by (rule Cons.IH)
  then show ?case by (simp add: e)
qed

lemma json_inv_EnsureConnected:
  "json_inv b \<Longrightarrow> json_inv (fst (snd (EnsureConnected now opened b)))"
  by (simp add: json_inv_def EnsureConnected_def Let_def split: option.split)

lemma json_inv_Tick: "json_inv b \<Longrightarrow> json_inv (fst (Tick now opened events b))"
  using json_inv_CallDispatch [OF json_inv_EnsureConnected, of b events now opened]
    json_inv_EnsureConnected [of b now opened]
  by (simp add: Tick_unfold)

lemma reachable_json_inv: "reachable b \<Longrightarrow> json_inv b"
proof (induction rule: reachable.induct)
  case reach_init
  show ?case by (simp add: json_inv_def Bridge_init_def)
next
  case (reach_EnsureConnected b now opened)
  then show ?case by (simp add: json_inv_EnsureConnected)
next
  case (reach_Tick b now opened events)
  then show ?case by (simp add: json_inv_Tick)
next
  case (reach_Close b)
  then show ?case by (simp add: json_inv_def Close_def)
next
  case (reach_GetSnapshotJson b)
  then show ?case by (simp add: json_inv_def GetSnapshotJson_def)
qed (simp_all add: SetTransponderCode_def SetAdfActiveKHz_def SetAdfStandbyKHz_def
      SetGearHandle_def SetFlapsIndex_def SetParkingBrake_def SetAutopilotMaster_def)

subsection \<open>Evaluating the conversion\<close>

lemma zeros_numeral:
  "replicate (numeral k) (CHR ''0'') = CHR ''0'' # replicate (numeral k - 1) (CHR ''0'')"
  by (simp add: numeral_eq_Suc)

lemma printf_sample:
  "printf_f 8 0x3FF8000000000000 = ''1.50000000''"
  "printf_f 8 0xC000000000000000 = ''-2.00000000''"
  "printf_f 2 0x408F400000000000 = ''1000.00''"
  "printf_f 2 0 = ''0.00''"
  "printf_f 3 0 = ''0.000''"
  "printf_f 1 0 = ''0.0''"
  "printf_f 0 0 = ''0''"
  "printf_f 0 0x3FF0000000000000 = ''1''"
  "printf_f 0 0x40B2000000000000 = ''4608''"
  unfolding printf_f_def Let_def
  by (simp_all add: round_half_even_def digits_of.simps zeros_numeral)

lemma printf_sample_Suc: "printf_f (Suc 0) 0 = ''0.0''"
  using printf_sample(6) by simp

lemma sample_bridge_eval:
  "snapshot_valid sample_bridge"
  "snapshot sample_bridge = spec_decode sample_telemetry"
  "connected sample_bridge"
  "last_connect_attempt_ms sample_bridge = 5000"
  "snapshot_json sample_bridge = take 1023 (spec_json (spec_decode sample_telemetry))"
  by (simp_all add: sample_bridge_def Tick_unfold EnsureConnected_def Let_def Bridge_init_def
      kRequestTelemetry_def BuildSnapshotJson_spec copy_telemetry_decode)

lemma huge_bridge_eval:
  "snapshot_valid huge_bridge"
  "snapshot huge_bridge = spec_decode huge_telemetry"
  "snapshot_json huge_bridge = take 1023 (spec_json (spec_decode huge_telemetry))"
  by (simp_all add: huge_bridge_def Tick_unfold EnsureConnected_def Let_def Bridge_init_def
      kRequestTelemetry_def BuildSnapshotJson_spec copy_telemetry_decode)

lemma sample_golden:
  \<open>spec_json (spec_decode sample_telemetry) =
     ''{"latitude":1.50000000,"longitude":-2.00000000,"altitude_ft_true":1000.00,''
     @ ''"altitude_ft_indicated":1000.00,"ias_kt":0.00,"tas_kt":0.00,''
     @ ''"ground_velocity_mps":0.000,"turbine_n1_pct":0.00,"on_ground":1,''
     @ ''"engine_combustion":0,"transponder_code":4608,"adf_active_freq_khz":0.000,''
     @ ''"adf_standby_freq_khz":0.000,"vertical_speed_fpm":0.0,"pitch_deg":0.00,''
     @ ''"turbine_n1_pct_2":0.00,"gear_handle":1,"flaps_index":0,"parking_brake":1,''
     @ ''"autopilot_master":0}''\<close>
  by (simp add: spec_json_def spec_keys_def spec_decode_def sample_telemetry_def printf_sample
      printf_sample_Suc)

text \<open>
  Claim C1, as the code has it. In every state the bridge can reach,
  \<open>get_snapshot_json\<close> returns \<open>{}\<close> when no snapshot is valid (none received
  yet, or invalidated by \<open>Close\<close>), and otherwise the first 1023 characters of the
  object of section 6 rendered from the 20 fields of the cached snapshot: the keys in
  that order, each value with its precision. That is the whole object whenever it is
  at most 1023 characters long.
\<close>

theorem get_snapshot_json_cached:
  assumes "reachable b"
  shows "fst (osb_get_snapshot_json b) =
           (if snapshot_valid b then take 1023 (spec_json (snapshot b)) else ''{}'')
         \<and> (snapshot_valid b \<and> length (spec_json (snapshot b)) \<le> 1023
              \<longrightarrow> fst (osb_get_snapshot_json b) = spec_json (snapshot b))
         \<and> fst (osb_get_snapshot_json (fst (Close b))) = ''{}''"
  using reachable_json_inv [OF assms]
  by (simp add: osb_get_snapshot_json_def GetSnapshotJson_def json_inv_def Close_def)

theorem get_snapshot_json_cached_witness:
  \<open>reachable sample_bridge \<and> snapshot_valid sample_bridge
   \<and> length (spec_json (snapshot sample_bridge)) \<le> 1023
   \<and> fst (osb_get_snapshot_json sample_bridge) =
     ''{"latitude":1.50000000,"longitude":-2.00000000,"altitude_ft_true":1000.00,''
     @ ''"altitude_ft_indicated":1000.00,"ias_kt":0.00,"tas_kt":0.00,''
     @ ''"ground_velocity_mps":0.000,"turbine_n1_pct":0.00,"on_ground":1,''
     @ ''"engine_combustion":0,"transponder_code":4608,"adf_active_freq_khz":0.000,''
     @ ''"adf_standby_freq_khz":0.000,"vertical_speed_fpm":0.0,"pitch_deg":0.00,''
     @ ''"turbine_n1_pct_2":0.00,"gear_handle":1,"flaps_index":0,"parking_brake":1,''
     @ ''"autopilot_master":0}''
   \<and> fst (osb_get_snapshot_json (fst (Close sample_bridge))) = ''{}''\<close>
proof -
  have r: "reachable sample_bridge"
    unfolding sample_bridge_def by (rule reach_Tick [OF reach_init])
  have l: "length (spec_json (snapshot sample_bridge)) \<le> 1023"
    by (simp add: sample_bridge_eval sample_golden)
  from get_snapshot_json_cached [OF r] r l show ?thesis
    by (simp add: sample_bridge_eval sample_golden)
qed


subsection \<open>A snapshot too long for the buffer\<close>

text \<open>
  A double as large as \<open>2 ^ 1023\<close> prints with 308 digits before the point. Four such
  fields make the object longer than the 1023 characters \<open>snprintf\<close> stores.
\<close>

lemma digits_of_nonempty: "0 < length (digits_of n)"
  by (subst digits_of.simps) simp

lemma length_digits_ge: "10 ^ k \<le> n \<Longrightarrow> k < length (digits_of n)"
proof (induction k arbitrary: n)
  case 0
  show ?case by (rule digits_of_nonempty)
next
  case (Suc k)
  have "(10::nat) \<le> 10 ^ Suc k"
    using power_increasing [of 1 "Suc k" "10::nat"] by simp
  from this Suc.prems have ge: "10 \<le> n" by (rule order_trans)
  from Suc.prems have "10 ^ k \<le> n div 10"
    by (simp add: less_eq_div_iff_mult_less_eq mult.commute)
  then have "k < length (digits_of (n div 10))" by (rule Suc.IH)
  moreover from ge have "digits_of n = digits_of (n div 10) @ [''0123456789'' ! (n mod 10)]"
    by (subst digits_of.simps) simp
  ultimately show ?case by simp
qed

lemma huge_prefix:
  "\<exists>rest. printf_f 8 0x7FE0000000000000 = digits_of (2 ^ 1023) @ rest"
  "\<exists>rest. printf_f 2 0x7FE0000000000000 = digits_of (2 ^ 1023) @ rest"
  unfolding printf_f_def Let_def by (simp_all add: round_half_even_def)

lemma huge_digits: "307 < length (digits_of (2 ^ 1023))"
proof -
  have "(10::nat) ^ 307 \<le> 2 ^ 1023" by simp
  then show ?thesis by (rule length_digits_ge)
qed

lemma huge_length:
  "307 < length (printf_f 8 0x7FE0000000000000)"
  "307 < length (printf_f 2 0x7FE0000000000000)"
  using huge_prefix huge_digits by auto

lemma spec_json_length_ge:
  "length (printf_f 8 (latitude_deg s)) + length (printf_f 8 (longitude_deg s))
     + length (printf_f 2 (altitude_ft_true s)) + length (printf_f 2 (altitude_ft_indicated s))
   \<le> length (spec_json s)"
  by (simp add: spec_json_def spec_keys_def)

lemma huge_json_length: "1023 < length (spec_json (spec_decode huge_telemetry))"
  using spec_json_length_ge [of "spec_decode huge_telemetry"] huge_length
  by (simp add: spec_decode_def huge_telemetry_def)

text \<open>
  Claim C1 as stated fails: after a data event with such values the snapshot is valid,
  and \<open>get_snapshot_json\<close> does not return the serialized object of section 6.
\<close>

theorem get_snapshot_json_truncated:
  "reachable huge_bridge \<and> snapshot_valid huge_bridge
   \<and> fst (osb_get_snapshot_json huge_bridge) \<noteq> spec_json (snapshot huge_bridge)"
proof -
  have r: "reachable huge_bridge"
    unfolding huge_bridge_def by (rule reach_Tick [OF reach_init])
  have "length (fst (osb_get_snapshot_json huge_bridge)) \<le> 1023"
    by (simp add: osb_get_snapshot_json_def GetSnapshotJson_def huge_bridge_eval)
  with huge_json_length
  have "fst (osb_get_snapshot_json huge_bridge) \<noteq> spec_json (spec_decode huge_telemetry)"
    by auto
  with r show ?thesis by (simp add: huge_bridge_eval)
qed


section \<open>Data events\<close>



section \<open>Traces\<close>

lemma HandleDispatch_last:
  "last_connect_attempt_ms (fst (HandleDispatch now ev b)) = last_connect_attempt_ms b"
  by (cases ev) (simp_all add: Close_def BuildSnapshotJson_def)

lemma CallDispatch_last:
  "last_connect_attempt_ms (fst (CallDispatch events b)) = last_connect_attempt_ms b"
proof (induction events arbitrary: b)
  case Nil
  show ?case by simp
next
  case (Cons e es)
  obtain now ev where e: "e = (now, ev)" by (cases e)
  show ?case by (simp add: e Cons.IH HandleDispatch_last)
qed

lemma HandleDispatch_calls:
  "snd (HandleDispatch now ev b) = []
   \<or> (\<exists>h. snd (HandleDispatch now ev b) = [SimConnect_Close h])"
  by (cases ev) (simp_all add: Close_def)

lemma CallDispatch_trace:
  "opens (snd (CallDispatch events b)) = 0
   \<and> dispatch_calls (snd (CallDispatch events b)) = 0
   \<and> definition_ids (snd (CallDispatch events b)) = []
   \<and> subscriptions (snd (CallDispatch events b)) = []"
proof (induction events arbitrary: b)
  case Nil
  show ?case by simp
next
  case (Cons e es)
  obtain now ev where e: "e = (now, ev)" by (cases e)
  from HandleDispatch_calls [of now ev b] Cons.IH [of "fst (HandleDispatch now ev b)"]
  show ?case by (auto simp add: e)
qed

lemma opens_append: "opens (xs @ ys) = opens xs + opens ys"
  by (induction xs rule: opens.induct) simp_all

lemma dispatch_calls_append: "dispatch_calls (xs @ ys) = dispatch_calls xs + dispatch_calls ys"
  by (induction xs rule: dispatch_calls.induct) simp_all

lemma definition_ids_append: "definition_ids (xs @ ys) = definition_ids xs @ definition_ids ys"
  by (induction xs rule: definition_ids.induct) simp_all

lemma subscriptions_append: "subscriptions (xs @ ys) = subscriptions xs @ subscriptions ys"
  by (induction xs rule: subscriptions.induct) simp_all

lemma add_definitions_trace:
  "opens (add_definitions h) = 0 \<and> dispatch_calls (add_definitions h) = 0
   \<and> subscriptions (add_definitions h) = []
   \<and> definition_ids (add_definitions h) = spec_definitions"
  by (simp add: add_definitions_def spec_definitions_def numeral_eq_Suc)

lemma registrations_append: "registrations (xs @ ys) = registrations xs @ registrations ys"
  by (induction xs rule: registrations.induct) simp_all

lemma add_definitions_registry:
  "add_definitions h = map (\<lambda>(d, name, unit). SimConnect_AddToDataDefinition h d name unit) field_registry"
  by (simp add: add_definitions_def field_registry_def)

lemma registrations_registry:
  "registrations (map (\<lambda>(d, name, unit). SimConnect_AddToDataDefinition h d name unit) fs)
     = map (\<lambda>(d, name, unit). (h, d, name, unit)) fs"
  by (induction fs) auto

lemma CallDispatch_registrations: "registrations (snd (CallDispatch events b)) = []"
proof (induction events arbitrary: b)
  case Nil
  show ?case by simp
next
  case (Cons e es)
  obtain now ev where e: "e = (now, ev)" by (cases e)
  from HandleDispatch_calls [of now ev b] Cons.IH [of "fst (HandleDispatch now ev b)"]
  show ?case by (auto simp add: e registrations_append)
qed

lemma elapsed_no_cooldown:
  fixes now last :: "64 word"
  assumes "last \<le> now" and "2000 \<le> uint now - uint last"
  shows "\<not> now - last < 2000"
proof -
  have "2000 \<le> uint (now - last)" using assms by (simp add: word_sub_elapsed)
  then show ?thesis by (simp add: word_less_def)
qed

lemma EnsureConnected_attempt:
  assumes "\<not> connected b" and "\<not> now - last_connect_attempt_ms b < 2000"
  shows "EnsureConnected now (Some h) b =
           (True, b\<lparr>last_connect_attempt_ms := now, simconnect := h, connected := True\<rparr>,
            SimConnect_Open ''OpenSquawkBridge'' # add_definitions h
              @ [SimConnect_RequestDataOnSimObject h kRequestTelemetry kDefTelemetry
                   kUserObjectId SIMCONNECT_PERIOD_SECOND SIMCONNECT_DATA_REQUEST_FLAG_CHANGED])"
    and "EnsureConnected now None b =
           (False, b\<lparr>last_connect_attempt_ms := now\<rparr>, [SimConnect_Open ''OpenSquawkBridge''])"
  using assms by (simp_all add: EnsureConnected_def Let_def RequestTelemetry_def)

section \<open>Tick while disconnected\<close>

text \<open>
  Claim C10. When \<open>EnsureConnected\<close> leaves the bridge disconnected (the open failed
  or the cooldown is active), \<open>Tick\<close> does nothing more: \<open>SimConnect_CallDispatch\<close>
  is not called, so no event reaches the handler whatever the host has queued, and the
  payload, the valid flag, the timestamp and the serialized string are those before
  the tick.
\<close>

theorem Tick_disconnected_no_dispatch:
  assumes "\<not> connected (fst (snd (EnsureConnected now opened b)))"
  shows "Tick now opened events b = snd (EnsureConnected now opened b)
       \<and> dispatch_calls (snd (Tick now opened events b)) = 0
       \<and> snapshot (fst (Tick now opened events b)) = snapshot b
       \<and> snapshot_valid (fst (Tick now opened events b)) = snapshot_valid b
       \<and> snapshot_ts_ms (fst (Tick now opened events b)) = snapshot_ts_ms b
       \<and> snapshot_json (fst (Tick now opened events b)) = snapshot_json b"
  using assms
  by (auto simp add: Tick_unfold EnsureConnected_def Let_def split: if_splits option.splits)

theorem Tick_disconnected_no_dispatch_witness:
  "\<not> connected (fst (snd (EnsureConnected 13000 None (Bridge_init\<lparr>last_connect_attempt_ms := 10000\<rparr>))))
   \<and> Tick 13000 None [(13001, RECV_SIMOBJECT_DATA 1 sample_telemetry)]
        (Bridge_init\<lparr>last_connect_attempt_ms := 10000\<rparr>)
      = (Bridge_init\<lparr>last_connect_attempt_ms := 13000\<rparr>, [SimConnect_Open ''OpenSquawkBridge''])
   \<and> \<not> connected (fst (snd (EnsureConnected 11000 (Some 7) (Bridge_init\<lparr>last_connect_attempt_ms := 10000\<rparr>))))
   \<and> Tick 11000 (Some 7) [(11001, RECV_SIMOBJECT_DATA 1 sample_telemetry)]
        (Bridge_init\<lparr>last_connect_attempt_ms := 10000\<rparr>)
      = (Bridge_init\<lparr>last_connect_attempt_ms := 10000\<rparr>, [])"
proof -
  let ?b = "Bridge_init\<lparr>last_connect_attempt_ms := 10000\<rparr>"
  have e1: "EnsureConnected 13000 None ?b
              = (False, Bridge_init\<lparr>last_connect_attempt_ms := 13000\<rparr>, [SimConnect_Open ''OpenSquawkBridge''])"
    by (simp add: EnsureConnected_def Bridge_init_def)
  have e2: "EnsureConnected 11000 (Some 7) ?b = (False, ?b, [])"
    by (simp add: EnsureConnected_def Bridge_init_def)
  have d1: "\<not> connected (fst (snd (EnsureConnected 13000 None ?b)))"
    by (subst e1) (simp add: Bridge_init_def)
  have d2: "\<not> connected (fst (snd (EnsureConnected 11000 (Some 7) ?b)))"
    by (subst e2) (simp add: Bridge_init_def)
  from Tick_disconnected_no_dispatch [OF d1, of "[(13001, RECV_SIMOBJECT_DATA 1 sample_telemetry)]"]
    Tick_disconnected_no_dispatch [OF d2, of "[(11001, RECV_SIMOBJECT_DATA 1 sample_telemetry)]"]
    d1 d2
  show ?thesis by (simp add: e1 e2)
qed

section \<open>The timestamp of the last attempt\<close>

text \<open>
  Claim C9. \<open>EnsureConnected\<close> returns early with the bridge unchanged when it is
  connected or the cooldown has not elapsed. The timestamp of the last attempt changes
  only in a call that makes the open call, and then becomes the current clock value;
  a call, or a tick, without an open call leaves it as it was, as do \<open>Close\<close>,
  the dispatch handler and \<open>GetSnapshotJson\<close>.
\<close>

theorem last_attempt_only_on_open:
  "(connected b \<longrightarrow> EnsureConnected now opened b = (True, b, []))
   \<and> (\<not> connected b \<and> now - last_connect_attempt_ms b < 2000
        \<longrightarrow> EnsureConnected now opened b = (False, b, []))
   \<and> (opens (snd (snd (EnsureConnected now opened b))) = 0
        \<longrightarrow> last_connect_attempt_ms (fst (snd (EnsureConnected now opened b)))
              = last_connect_attempt_ms b)
   \<and> (opens (snd (snd (EnsureConnected now opened b))) \<noteq> 0
        \<longrightarrow> opens (snd (snd (EnsureConnected now opened b))) = 1
            \<and> last_connect_attempt_ms (fst (snd (EnsureConnected now opened b))) = now)
   \<and> (opens (snd (Tick now opened events b)) = 0
        \<longrightarrow> last_connect_attempt_ms (fst (Tick now opened events b))
              = last_connect_attempt_ms b)
   \<and> last_connect_attempt_ms (fst (Close b)) = last_connect_attempt_ms b
   \<and> last_connect_attempt_ms (fst (HandleDispatch now ev b)) = last_connect_attempt_ms b
   \<and> last_connect_attempt_ms (snd (GetSnapshotJson b)) = last_connect_attempt_ms b"
  by (auto simp add: Tick_unfold EnsureConnected_def Let_def opens_append CallDispatch_last
        CallDispatch_trace add_definitions_trace RequestTelemetry_def Close_def
        HandleDispatch_last GetSnapshotJson_def
      split: if_splits option.splits)

theorem last_attempt_only_on_open_witness:
  "connected connected_bridge
   \<and> EnsureConnected 9999 None connected_bridge = (True, connected_bridge, [])
   \<and> \<not> connected (Bridge_init\<lparr>last_connect_attempt_ms := 10000\<rparr>)
   \<and> (11000 :: 64 word) - last_connect_attempt_ms (Bridge_init\<lparr>last_connect_attempt_ms := 10000\<rparr>) < 2000
   \<and> EnsureConnected 11000 (Some 7) (Bridge_init\<lparr>last_connect_attempt_ms := 10000\<rparr>)
        = (False, Bridge_init\<lparr>last_connect_attempt_ms := 10000\<rparr>, [])
   \<and> opens (snd (snd (EnsureConnected 13000 None (Bridge_init\<lparr>last_connect_attempt_ms := 10000\<rparr>)))) = 1
   \<and> last_connect_attempt_ms
        (fst (snd (EnsureConnected 13000 None (Bridge_init\<lparr>last_connect_attempt_ms := 10000\<rparr>))))
        = 13000
   \<and> opens (snd (Tick 11000 (Some 7) [] (Bridge_init\<lparr>last_connect_attempt_ms := 10000\<rparr>))) = 0
   \<and> last_connect_attempt_ms
        (fst (Tick 11000 (Some 7) [] (Bridge_init\<lparr>last_connect_attempt_ms := 10000\<rparr>)))
        = 10000"
proof -
  let ?b = "Bridge_init\<lparr>last_connect_attempt_ms := 10000\<rparr>"
  have c: "connected connected_bridge"
    by (simp add: connected_bridge_def EnsureConnected_def Let_def Bridge_init_def)
  have d: "\<not> connected ?b" by (simp add: Bridge_init_def)
  have l: "last_connect_attempt_ms ?b = 10000" by simp
  have o: "opens (snd (snd (EnsureConnected 13000 None ?b))) \<noteq> 0"
    by (simp add: EnsureConnected_def Bridge_init_def)
  have t: "opens (snd (Tick 11000 (Some 7) [] ?b)) = 0"
    by (simp add: Tick_unfold EnsureConnected_def Bridge_init_def)
  from last_attempt_only_on_open [of connected_bridge 9999 None "[]" RECV_OPEN]
    last_attempt_only_on_open [of ?b 11000 "Some 7" "[]" RECV_OPEN]
    last_attempt_only_on_open [of ?b 13000 None "[]" RECV_OPEN]
    c d o t
  show ?thesis by (simp add: l)
qed

section \<open>Quit and reconnection\<close>

text \<open>
  Claim C6. A quit event does what \<open>Close\<close> does: the bridge is disconnected and the
  snapshot invalid, the time of the last attempt kept. A tick at least 2000 ms after
  that last attempt then makes exactly one open call, first of all its calls. If the
  open succeeds the bridge is connected on the handle the host returned, and the calls
  of the tick are, in this order: the open call; on that handle, the registration of
  every field descriptor with its definition, name and unit, the 20 data of the bulk
  definition and then the seven single-field definitions; on that handle, the
  subscription to the bulk telemetry of the user object, once per second when changed;
  the one dispatch call on that handle; and what the handler does with the events
  delivered. If the open fails the bridge stays disconnected with the attempt recorded.
\<close>

theorem quit_then_reconnect:
  assumes "last_connect_attempt_ms b \<le> now"
    and "2000 \<le> uint now - uint (last_connect_attempt_ms b)"
  shows "HandleDispatch t RECV_QUIT b = Close b
   \<and> \<not> connected (fst (HandleDispatch t RECV_QUIT b))
   \<and> \<not> snapshot_valid (fst (HandleDispatch t RECV_QUIT b))
   \<and> last_connect_attempt_ms (fst (HandleDispatch t RECV_QUIT b)) = last_connect_attempt_ms b
   \<and> opens (snd (Tick now opened events (fst (HandleDispatch t RECV_QUIT b)))) = 1
   \<and> hd (snd (Tick now opened events (fst (HandleDispatch t RECV_QUIT b))))
       = SimConnect_Open ''OpenSquawkBridge''
   \<and> (opened = Some h \<longrightarrow>
        connected (fst (snd (EnsureConnected now opened (fst (HandleDispatch t RECV_QUIT b)))))
        \<and> definition_ids (snd (Tick now opened events (fst (HandleDispatch t RECV_QUIT b))))
            = spec_definitions
        \<and> subscriptions (snd (Tick now opened events (fst (HandleDispatch t RECV_QUIT b))))
            = [(kRequestTelemetry, kDefTelemetry)]
        \<and> dispatch_calls (snd (Tick now opened events (fst (HandleDispatch t RECV_QUIT b)))) = 1
        \<and> simconnect (fst (snd (EnsureConnected now opened (fst (HandleDispatch t RECV_QUIT b)))))
            = h
        \<and> registrations (snd (Tick now opened events (fst (HandleDispatch t RECV_QUIT b))))
            = map (\<lambda>(d, name, unit). (h, d, name, unit)) field_registry
        \<and> snd (Tick now opened events (fst (HandleDispatch t RECV_QUIT b)))
            = SimConnect_Open ''OpenSquawkBridge''
              # map (\<lambda>(d, name, unit). SimConnect_AddToDataDefinition h d name unit)
                  field_registry
              @ [SimConnect_RequestDataOnSimObject h kRequestTelemetry kDefTelemetry
                   kUserObjectId SIMCONNECT_PERIOD_SECOND SIMCONNECT_DATA_REQUEST_FLAG_CHANGED,
                 SimConnect_CallDispatch h]
              @ snd (CallDispatch events
                       (fst (snd (EnsureConnected now opened
                                    (fst (HandleDispatch t RECV_QUIT b)))))))
   \<and> (opened = None \<longrightarrow>
        Tick now opened events (fst (HandleDispatch t RECV_QUIT b))
          = ((fst (Close b))\<lparr>last_connect_attempt_ms := now\<rparr>,
             [SimConnect_Open ''OpenSquawkBridge'']))"
proof -
  let ?b1 = "fst (Close b)"
  have q: "HandleDispatch t RECV_QUIT b = Close b" by simp
  have d: "\<not> connected ?b1" and v: "\<not> snapshot_valid ?b1"
    and l: "last_connect_attempt_ms ?b1 = last_connect_attempt_ms b"
    by (simp_all add: Close_def)
  have n: "\<not> now - last_connect_attempt_ms ?b1 < 2000"
    using assms by (simp add: l elapsed_no_cooldown)
  note e = EnsureConnected_attempt [OF d n]
  show ?thesis
  proof (cases opened)
    case None
    with d v l show ?thesis
      by (simp add: q Tick_unfold e)
  next
    case (Some h')
    have tr: "snd (Tick now (Some h') events ?b1)
        = SimConnect_Open ''OpenSquawkBridge''
          # map (\<lambda>(d, name, unit). SimConnect_AddToDataDefinition h' d name unit)
              field_registry
          @ [SimConnect_RequestDataOnSimObject h' kRequestTelemetry kDefTelemetry
               kUserObjectId SIMCONNECT_PERIOD_SECOND SIMCONNECT_DATA_REQUEST_FLAG_CHANGED,
             SimConnect_CallDispatch h']
          @ snd (CallDispatch events (fst (snd (EnsureConnected now (Some h') ?b1))))"
      by (simp add: Tick_unfold e add_definitions_registry)
    have regs: "registrations (snd (Tick now (Some h') events ?b1))
        = map (\<lambda>(d, name, unit). (h', d, name, unit)) field_registry"
      by (simp only: tr registrations.simps registrations_append registrations_registry
          CallDispatch_registrations append_Nil append_Nil2)
    have rest: "opens (snd (Tick now (Some h') events ?b1)) = 1
        \<and> hd (snd (Tick now (Some h') events ?b1)) = SimConnect_Open ''OpenSquawkBridge''
        \<and> connected (fst (snd (EnsureConnected now (Some h') ?b1)))
        \<and> simconnect (fst (snd (EnsureConnected now (Some h') ?b1))) = h'
        \<and> definition_ids (snd (Tick now (Some h') events ?b1)) = spec_definitions
        \<and> subscriptions (snd (Tick now (Some h') events ?b1))
            = [(kRequestTelemetry, kDefTelemetry)]
        \<and> dispatch_calls (snd (Tick now (Some h') events ?b1)) = 1"
      by (simp add: Tick_unfold e opens_append dispatch_calls_append definition_ids_append
          subscriptions_append add_definitions_trace CallDispatch_trace)
    show ?thesis
      unfolding q Some using d v l tr regs rest by blast
  qed
qed

theorem quit_then_reconnect_witness:
  "last_connect_attempt_ms sample_bridge \<le> 7000
   \<and> 2000 \<le> uint (7000 :: 64 word) - uint (last_connect_attempt_ms sample_bridge)
   \<and> connected sample_bridge \<and> snapshot_valid sample_bridge
   \<and> \<not> connected (fst (HandleDispatch 6000 RECV_QUIT sample_bridge))
   \<and> \<not> snapshot_valid (fst (HandleDispatch 6000 RECV_QUIT sample_bridge))
   \<and> opens (snd (Tick 7000 (Some 2) [] (fst (HandleDispatch 6000 RECV_QUIT sample_bridge)))) = 1
   \<and> definition_ids (snd (Tick 7000 (Some 2) [] (fst (HandleDispatch 6000 RECV_QUIT sample_bridge))))
       = replicate 20 1 @ [10, 11, 12, 13, 14, 15, 16]
   \<and> subscriptions (snd (Tick 7000 (Some 2) [] (fst (HandleDispatch 6000 RECV_QUIT sample_bridge))))
       = [(1, 1)]
   \<and> length (snd (Tick 7000 (Some 2) [] (fst (HandleDispatch 6000 RECV_QUIT sample_bridge)))) = 30
   \<and> snd (Tick 7000 (Some 2) [] (fst (HandleDispatch 6000 RECV_QUIT sample_bridge))) ! 1
       = SimConnect_AddToDataDefinition 2 1 ''PLANE LATITUDE'' ''degrees''
   \<and> snd (Tick 7000 (Some 2) [] (fst (HandleDispatch 6000 RECV_QUIT sample_bridge))) ! 11
       = SimConnect_AddToDataDefinition 2 1 ''TRANSPONDER CODE:1'' ''bco16''
   \<and> snd (Tick 7000 (Some 2) [] (fst (HandleDispatch 6000 RECV_QUIT sample_bridge))) ! 21
       = SimConnect_AddToDataDefinition 2 10 ''TRANSPONDER CODE:1'' ''bco16''
   \<and> snd (Tick 7000 (Some 2) [] (fst (HandleDispatch 6000 RECV_QUIT sample_bridge))) ! 27
       = SimConnect_AddToDataDefinition 2 16 ''AUTOPILOT MASTER'' ''bool''
   \<and> snd (Tick 7000 (Some 2) [] (fst (HandleDispatch 6000 RECV_QUIT sample_bridge))) ! 28
       = SimConnect_RequestDataOnSimObject 2 1 1 SIMCONNECT_OBJECT_ID_USER
           SIMCONNECT_PERIOD_SECOND SIMCONNECT_DATA_REQUEST_FLAG_CHANGED
   \<and> snd (Tick 7000 (Some 2) [] (fst (HandleDispatch 6000 RECV_QUIT sample_bridge))) ! 29
       = SimConnect_CallDispatch 2
   \<and> Tick 7000 None [] (fst (HandleDispatch 6000 RECV_QUIT sample_bridge))
       = ((fst (Close sample_bridge))\<lparr>last_connect_attempt_ms := 7000\<rparr>,
          [SimConnect_Open ''OpenSquawkBridge''])"
proof -
  have a: "last_connect_attempt_ms sample_bridge \<le> 7000"
    and b: "2000 \<le> uint (7000 :: 64 word) - uint (last_connect_attempt_ms sample_bridge)"
    by (simp_all add: sample_bridge_eval)
  have ids: "spec_definitions
    = replicate 20 1 @ [10, 11, 12, 13, 14, 15, 16]"
    by (simp add: spec_definitions_def kDefTelemetry_def kDefTransponder_def
        kDefAdfActive_def kDefAdfStandby_def kDefGearHandle_def kDefFlapsIndex_def
        kDefParkingBrake_def kDefAutopilot_def)
  have rep: "replicate 20 (1 :: DWORD) = replicate 10 1 @ replicate 10 1"
    by (simp add: replicate_add [symmetric])
  have ten: "replicate 10 (1 :: DWORD) = [1, 1, 1, 1, 1, 1, 1, 1, 1, 1]"
    by (simp add: numeral_eq_Suc)
  from quit_then_reconnect [OF a b, of 6000 "Some 2" "[]" 2]
    quit_then_reconnect [OF a b, of 6000 None "[]" 2] a b
  show ?thesis
    by (simp add: sample_bridge_eval ids rep ten field_registry_def kRequestTelemetry_def
        kDefTelemetry_def kDefTransponder_def kDefAdfActive_def kDefAdfStandby_def
        kDefGearHandle_def kDefFlapsIndex_def kDefParkingBrake_def kDefAutopilot_def)
qed

section \<open>The setters while connected\<close>

lemma setters_connected:
  assumes "connected b"
  shows "SetAdfActiveKHz ack khz b =
           (ack, b, [SimConnect_SetDataOnSimObject (simconnect b) kDefAdfActive kUserObjectId
                       0 0 8 (Data_double khz)])"
    and "SetAdfStandbyKHz ack khz b =
           (ack, b, [SimConnect_SetDataOnSimObject (simconnect b) kDefAdfStandby kUserObjectId
                       0 0 8 (Data_double khz)])"
    and "SetGearHandle ack on b =
           (ack, b, [SimConnect_SetDataOnSimObject (simconnect b) kDefGearHandle kUserObjectId
                       0 0 8 (Data_double (if on then 0x3FF0000000000000 else 0))])"
    and "SetFlapsIndex ack index b =
           (ack, b, [SimConnect_SetDataOnSimObject (simconnect b) kDefFlapsIndex kUserObjectId
                       0 0 8 (Data_double (double_of_int index))])"
    and "SetParkingBrake ack on b =
           (ack, b, [SimConnect_SetDataOnSimObject (simconnect b) kDefParkingBrake kUserObjectId
                       0 0 8 (Data_double (if on then 0x3FF0000000000000 else 0))])"
    and "SetAutopilotMaster ack on b =
           (ack, b, [SimConnect_SetDataOnSimObject (simconnect b) kDefAutopilot kUserObjectId
                       0 0 8 (Data_double (if on then 0x3FF0000000000000 else 0))])"
    and "SetTransponderCode ack code b =
           (ack, b, [SimConnect_SetDataOnSimObject (simconnect b) kDefTransponder kUserObjectId
                       0 0 4 (Data_uint32 code)])"
  using assms
  by (simp_all add: SetTransponderCode_def SetAdfActiveKHz_def SetAdfStandbyKHz_def
      SetGearHandle_def SetFlapsIndex_def SetParkingBrake_def SetAutopilotMaster_def
      SetData_def double_of_bool_def)

lemma double_of_int_2: "double_of_int 2 = 0x4000000000000000"
  by (simp add: double_of_int_def bit_length.simps Let_def)

lemma connected_bridge_eval:
  "connected connected_bridge" "simconnect connected_bridge = 1"
  by (simp_all add: connected_bridge_def EnsureConnected_def Let_def Bridge_init_def)

text \<open>
  Claim C5. The three boolean setters write the double 1.0 or 0.0, and the ADF and
  flaps setters write their value as a double, 8 bytes (\<open>setters_connected\<close>).
  \<open>SetTransponderCode\<close> does not: on the connected bridge it writes the code as a
  4-byte unsigned integer, to a definition whose datum was registered by the same
  four-argument call as that of \<open>SetFlapsIndex\<close> and as the transponder code of the
  bulk definition, which the bridge reads as a double.
\<close>

theorem SetTransponderCode_writes_uint32:
  "SetTransponderCode True 0x1200 connected_bridge =
     (True, connected_bridge,
      [SimConnect_SetDataOnSimObject 1 kDefTransponder kUserObjectId 0 0 4 (Data_uint32 0x1200)])
   \<and> SetFlapsIndex True 2 connected_bridge =
     (True, connected_bridge,
      [SimConnect_SetDataOnSimObject 1 kDefFlapsIndex kUserObjectId 0 0 8
         (Data_double 0x4000000000000000)])
   \<and> SimConnect_AddToDataDefinition 1 kDefTransponder ''TRANSPONDER CODE:1'' ''bco16''
       \<in> set (snd (snd (EnsureConnected 5000 (Some 1) Bridge_init)))
   \<and> SimConnect_AddToDataDefinition 1 kDefFlapsIndex ''FLAPS HANDLE INDEX'' ''number''
       \<in> set (snd (snd (EnsureConnected 5000 (Some 1) Bridge_init)))
   \<and> SimConnect_AddToDataDefinition 1 kDefTelemetry ''TRANSPONDER CODE:1'' ''bco16''
       \<in> set (snd (snd (EnsureConnected 5000 (Some 1) Bridge_init)))"
proof -
  have "\<not> (5000 :: 64 word) - last_connect_attempt_ms Bridge_init < 2000"
    and "\<not> connected Bridge_init"
    by (simp_all add: Bridge_init_def)
  then have "snd (snd (EnsureConnected 5000 (Some 1) Bridge_init))
     = SimConnect_Open ''OpenSquawkBridge'' # add_definitions 1
       @ [SimConnect_RequestDataOnSimObject 1 kRequestTelemetry kDefTelemetry
            kUserObjectId SIMCONNECT_PERIOD_SECOND SIMCONNECT_DATA_REQUEST_FLAG_CHANGED]"
    by (simp add: EnsureConnected_attempt)
  then show ?thesis
    by (simp add: setters_connected connected_bridge_eval double_of_int_2 add_definitions_def)
qed

end
